theory Spec2Isabelle
  imports Main "HOL-Library.Multiset" "HOL-Library.Char_ord" "HOL-Library.List_Lexorder"
    "HOL-Library.Product_Lexorder"
begin

section \<open>The vocabulary trainer: progress records and their update\<close>

text \<open>
  The repository is a generator script; the program verified here is the application it
  writes out, namely the model class \<open>UserProgress\<close> of \<open>MODELS_PY\<close> and the view
  \<open>practice\<close> of \<open>VIEWS_PY\<close>.

  Python integers are unbounded, so the integer columns are \<open>int\<close>. A \<open>datetime\<close> is
  a point on the time line counted in microseconds (the resolution of Python's
  \<open>datetime\<close>); the limits of the representable years (1 to 9999) are not modelled, since
  every timestamp the code handles is a reading of the system clock or such a reading
  plus at most sixty days. Exceptions are values of \<open>py_error\<close>.
\<close>

datatype py_error = IndexError | OverflowError | ZeroDivisionError

type_synonym datetime = int

definition timedelta :: "int \<Rightarrow> int" where
  \<comment> \<open>\<open>timedelta(days=d)\<close>, in microseconds\<close>
  "timedelta days = days * 86400000000"

record UserProgress =
  user_id :: nat
  word_id :: nat
  mastery_level :: int
  correct_count :: int
  incorrect_count :: int
  last_reviewed :: datetime
  next_review :: datetime

text \<open>
  Subscription of a Python list: an index from \<open>0\<close> to \<open>len - 1\<close> counts from the front,
  one from \<open>-len\<close> to \<open>-1\<close> counts from the back, anything else raises \<open>IndexError\<close>.
\<close>

definition py_getitem :: "'a list \<Rightarrow> int \<Rightarrow> py_error + 'a" where
  "py_getitem xs i =
     (if 0 \<le> i \<and> i < int (length xs) then Inr (xs ! nat i)
      else if i < 0 \<and> - int (length xs) \<le> i then Inr (xs ! nat (int (length xs) + i))
      else Inl IndexError)"

definition intervals :: "int list" where
  "intervals = [1, 3, 7, 14, 30, 60]"

text \<open>
  \<open>save\<close> writes the row back to the database; on the in-memory record it changes
  nothing.
\<close>

definition save :: "UserProgress \<Rightarrow> UserProgress" where
  "save self = self"

text \<open>
  \<open>UserProgress.update_progress\<close>. The method reads the clock twice, once for
  \<open>last_reviewed\<close> and once for \<open>next_review\<close>; the two readings are the arguments
  \<open>now1\<close> and \<open>now2\<close>. The spec's \<open>update(state, isCorrect, now)\<close>, with its one injected
  timestamp, is \<open>update_progress state isCorrect now now\<close>. When the table lookup raises,
  the exception leaves the method before \<open>save\<close>, and no record is returned.
\<close>

definition update_progress ::
    "UserProgress \<Rightarrow> bool \<Rightarrow> datetime \<Rightarrow> datetime \<Rightarrow> py_error + UserProgress" where
  "update_progress self is_correct now1 now2 =
     (case
        (if is_correct then
           (let self1 = self\<lparr>correct_count := correct_count self + 1\<rparr>;
                self2 = self1\<lparr>mastery_level := min 5 (mastery_level self1 + 1)\<rparr>
            in case py_getitem intervals (mastery_level self2) of
                 Inl e \<Rightarrow> Inl e
               | Inr days \<Rightarrow> Inr (self2, days))
         else
           (let self1 = self\<lparr>incorrect_count := incorrect_count self + 1\<rparr>;
                self2 = self1\<lparr>mastery_level := max 0 (mastery_level self1 - 1)\<rparr>
            in Inr (self2, 1)))
      of
        Inl e \<Rightarrow> Inl e
      | Inr (self3, days) \<Rightarrow>
          Inr (save (self3\<lparr>last_reviewed := now1, next_review := now2 + timedelta days\<rparr>)))"

text \<open>
  The view \<open>check_answer\<close> fetches the row of the user and the word with
  \<open>get_or_create\<close> and calls \<open>update_progress\<close> on it once. A row that did not exist is
  created from the column defaults: level 0, both counters 0, and a clock reading for each
  of the two timestamps.
\<close>

definition fresh_progress :: "nat \<Rightarrow> nat \<Rightarrow> datetime \<Rightarrow> datetime \<Rightarrow> UserProgress" where
  "fresh_progress u w now1 now2 =
     \<lparr>user_id = u, word_id = w, mastery_level = 0, correct_count = 0,
      incorrect_count = 0, last_reviewed = now1, next_review = now2\<rparr>"

text \<open>
  The life of one row: a sequence of answers, each with the two clock readings of its
  update. An exception ends the request that raised it; the run below stops there.
\<close>

fun answer_all :: "UserProgress \<Rightarrow> (bool \<times> datetime \<times> datetime) list \<Rightarrow> py_error + UserProgress" where
  "answer_all self [] = Inr self"
| "answer_all self ((is_correct, now1, now2) # rest) =
     (case update_progress self is_correct now1 now2 of
        Inr self' \<Rightarrow> answer_all self' rest
      | Inl e \<Rightarrow> Inl e)"

section \<open>The success rate and its floating-point arithmetic\<close>

text \<open>
  \<open>success_rate\<close> computes \<open>int((correct_count / total) * 100)\<close>. In Python 3 the
  operator \<open>/\<close> on two integers is true division: the result is the binary64 number
  nearest to the exact quotient (ties to the even mantissa), and \<open>OverflowError\<close> when
  that is beyond the largest finite number. The product with \<open>100\<close> is the IEEE 754
  product of two binary64 numbers, again rounded to nearest, and \<open>int\<close> truncates towards
  zero. These are modelled exactly, on integers: a finite binary64 number is a pair
  \<open>(m, e)\<close> that stands for \<open>m * 2 ^ e\<close>, with \<open>\<bar>m\<bar> \<le> 2 ^ 53\<close> and \<open>- 1074 \<le> e\<close>.
\<close>

function bit_length :: "int \<Rightarrow> nat" where
  "bit_length n = (if n \<le> 0 then 0 else Suc (bit_length (n div 2)))"
  by pat_completeness auto
termination
  by (relation "measure nat") auto

declare bit_length.simps [simp del]

text \<open>
  The quotient \<open>n / d\<close> of a non-negative \<open>n\<close> by a positive \<open>d\<close>, rounded to the nearest
  integer, a tie going to the even one.
\<close>

definition round_half_even :: "int \<Rightarrow> int \<Rightarrow> int" where
  "round_half_even n d =
     (let q = n div d; r = n mod d
      in if 2 * r < d then q
         else if d < 2 * r then q + 1
         else if even q then q else q + 1)"

datatype pyfloat = Finite int int | Infinite

text \<open>
  The binary64 number nearest to \<open>n / d\<close>, for \<open>d\<close> positive. The exponent \<open>e1\<close> is the
  one that puts the scaled quotient in \<open>[2 ^ 52, 2 ^ 53)\<close>; below \<open>- 1074\<close> the number is
  subnormal and the exponent stays at \<open>- 1074\<close>. The largest finite number is
  \<open>(2 ^ 53 - 1) * 2 ^ 971\<close>.
\<close>

definition nearest_double :: "int \<Rightarrow> int \<Rightarrow> pyfloat" where
  "nearest_double n d =
     (if n = 0 then Finite 0 0
      else
        let a = \<bar>n\<bar>;
            e0 = int (bit_length a) - int (bit_length d) - 53;
            e1 = (if d * 2 ^ nat (e0 + 53) \<le> a * 2 ^ nat (- (e0 + 53)) then e0 + 1 else e0);
            e = max e1 (- 1074);
            m = round_half_even (a * 2 ^ nat (- e)) (d * 2 ^ nat e)
        in if 971 < e \<or> (e = 971 \<and> 2 ^ 53 \<le> m) then Infinite
           else Finite (sgn n * m) e)"

definition int_true_div :: "int \<Rightarrow> int \<Rightarrow> py_error + (int \<times> int)" where
  "int_true_div a b =
     (if b = 0 then Inl ZeroDivisionError
      else case nearest_double (a * sgn b) \<bar>b\<bar> of
             Finite m e \<Rightarrow> Inr (m, e)
           | Infinite \<Rightarrow> Inl OverflowError)"

definition float_mul :: "int \<times> int \<Rightarrow> int \<times> int \<Rightarrow> pyfloat" where
  "float_mul x y =
     (case x of (m1, e1) \<Rightarrow> case y of (m2, e2) \<Rightarrow>
        nearest_double (m1 * m2 * 2 ^ nat (e1 + e2)) (2 ^ nat (- (e1 + e2))))"

text \<open>\<open>int(x)\<close> of a float: truncation towards zero; an infinity raises.\<close>

definition py_int :: "pyfloat \<Rightarrow> py_error + int" where
  "py_int x =
     (case x of
        Infinite \<Rightarrow> Inl OverflowError
      | Finite m e \<Rightarrow>
          Inr (if 0 \<le> e then m * 2 ^ nat e else sgn m * (\<bar>m\<bar> div 2 ^ nat (- e))))"

text \<open>The property \<open>UserProgress.success_rate\<close>; the float \<open>100.0\<close> is \<open>(100, 0)\<close>.\<close>

definition success_rate :: "UserProgress \<Rightarrow> py_error + int" where
  "success_rate self =
     (let total = correct_count self + incorrect_count self
      in if total = 0 then Inr 0
         else case int_true_div (correct_count self) total of
                Inl e \<Rightarrow> Inl e
              | Inr q \<Rightarrow> py_int (float_mul q (100, 0)))"

section \<open>The practice view\<close>

record Word =
  id_pk :: nat
  language_id :: nat
  word :: string
  translation :: string
  pronunciation :: string
  example_sentence :: string
  difficulty :: string
  created_at :: datetime

text \<open>
  The two tables the view reads, each as the list of its rows. A query set with an
  ordering is the stable sort of the filtered rows by the ordering's key: where two rows
  have the same key the database may return them in either order, and the model takes the
  order of the table. Text columns compare byte by byte.
\<close>

record database =
  progress_rows :: "UserProgress list"
  word_rows :: "Word list"

text \<open>
  An entry of the session list: a progress row that is due, or a word the user has no
  progress row for (the view wraps such a word in an object with \<open>mastery_level\<close> 0 and
  unwraps it again for the template).
\<close>

datatype practice_item = Due UserProgress | New Word

text \<open>
  \<open>UserProgress.objects.filter(user=..., next_review__lte=now)[:10]\<close>, in the ordering
  \<open>['next_review']\<close> of the model's \<open>Meta\<close>.
\<close>

definition due_words :: "database \<Rightarrow> nat \<Rightarrow> datetime \<Rightarrow> UserProgress list" where
  "due_words db user now =
     take 10 (sort_key next_review
       (filter (\<lambda>p. user_id p = user \<and> next_review p \<le> now) (progress_rows db)))"

definition learned_word_ids :: "database \<Rightarrow> nat \<Rightarrow> nat list" where
  "learned_word_ids db user =
     map word_id (filter (\<lambda>p. user_id p = user) (progress_rows db))"

text \<open>
  \<open>Word.objects.exclude(id__in=learned_word_ids)[:10 - len(due_words)]\<close>, in the ordering
  \<open>['difficulty', 'word']\<close> of \<open>Word\<close>. The argument \<open>n\<close> is \<open>len(due_words)\<close>; it is at
  most 10, so the bound of the slice is never negative.
\<close>

definition new_words :: "database \<Rightarrow> nat \<Rightarrow> nat \<Rightarrow> Word list" where
  "new_words db user n =
     take (10 - n) (sort_key (\<lambda>w. (difficulty w, word w))
       (filter (\<lambda>w. id_pk w \<notin> set (learned_word_ids db user)) (word_rows db)))"

definition practice_words :: "database \<Rightarrow> nat \<Rightarrow> datetime \<Rightarrow> practice_item list" where
  "practice_words db user now =
     (let due = due_words db user now;
          new = new_words db user (length due)
      in map Due due @ map New new)"

text \<open>
  The response of the view \<open>practice\<close>: the page without words when the list is empty,
  otherwise the page with the list. (The study session the view then creates is a row of
  a third table and is left out.)
\<close>

datatype practice_response = NoWords | PracticePage "practice_item list"

definition practice :: "database \<Rightarrow> nat \<Rightarrow> datetime \<Rightarrow> practice_response" where
  "practice db user now =
     (let words = practice_words db user now
      in if words = [] then NoWords else PracticePage words)"

section \<open>Properties of the update\<close>

lemma level_cases:
  fixes l :: int
  assumes "0 \<le> l" "l \<le> 5"
  shows "l = 0 \<or> l = 1 \<or> l = 2 \<or> l = 3 \<or> l = 4 \<or> l = 5"
  using assms by arith

lemma getitem_in_range:
  assumes "0 \<le> l" "l \<le> 5"
  shows "py_getitem intervals l = Inr (intervals ! nat l)"
  using assms by (simp add: py_getitem_def intervals_def)

lemma update_progress_correct:
  assumes "- 1 \<le> mastery_level s"
  shows "update_progress s True now1 now2 =
           Inr (s\<lparr>mastery_level := min 5 (mastery_level s + 1),
                  correct_count := correct_count s + 1,
                  last_reviewed := now1,
                  next_review := now2 + timedelta (intervals ! nat (min 5 (mastery_level s + 1)))\<rparr>)"
proof -
  let ?l = "min 5 (mastery_level s + 1)"
  have "0 \<le> ?l" "?l \<le> 5" using assms by simp_all
  then have "py_getitem intervals ?l = Inr (intervals ! nat ?l)"
    by (rule getitem_in_range)
  then show ?thesis
    by (simp add: update_progress_def save_def Let_def)
qed

lemma update_progress_incorrect:
  "update_progress s False now1 now2 =
     Inr (s\<lparr>mastery_level := max 0 (mastery_level s - 1),
            incorrect_count := incorrect_count s + 1,
            last_reviewed := now1,
            next_review := now2 + timedelta 1\<rparr>)"
  by (simp add: update_progress_def save_def Let_def)

text \<open>
  Claim C2. When the mastery level of the record is between 0 and 5, the update returns
  a record, for either answer and any clock readings, and the mastery level of that
  record is again between 0 and 5.
\<close>

theorem update_progress_level_in_range:
  assumes "0 \<le> mastery_level s" and "mastery_level s \<le> 5"
  shows "\<exists>s'. update_progress s is_correct now1 now2 = Inr s'
              \<and> 0 \<le> mastery_level s' \<and> mastery_level s' \<le> 5"
proof (cases is_correct)
  case True
  then show ?thesis using assms by (simp add: update_progress_correct)
next
  case False
  then show ?thesis using assms by (simp add: update_progress_incorrect)
qed

theorem update_progress_level_in_range_witness:
  "\<exists>s'. update_progress
          \<lparr>user_id = 1, word_id = 7, mastery_level = 5, correct_count = 8,
           incorrect_count = 3, last_reviewed = 0, next_review = 0\<rparr>
          True 1000 1002 = Inr s'
        \<and> 0 \<le> mastery_level s' \<and> mastery_level s' \<le> 5"
  using update_progress_level_in_range
    [of "\<lparr>user_id = 1, word_id = 7, mastery_level = 5, correct_count = 8,
          incorrect_count = 3, last_reviewed = 0, next_review = 0\<rparr>" True 1000 1002]
  by simp

lemma getitem_from_back:
  assumes "- 6 \<le> l" "l < 0"
  shows "\<exists>d. py_getitem intervals l = Inr d"
  using assms by (simp add: py_getitem_def intervals_def)

lemma getitem_out_of_range:
  assumes "l < - 6"
  shows "py_getitem intervals l = Inl IndexError"
  using assms by (simp add: py_getitem_def intervals_def)

lemma update_progress_correct_level:
  assumes "update_progress s True now1 now2 = Inr s'"
  shows "mastery_level s' = min 5 (mastery_level s + 1)"
  using assms
  by (auto simp add: update_progress_def save_def Let_def split: sum.splits)

lemma update_progress_correct_returns:
  assumes "- 7 \<le> mastery_level s"
  shows "\<exists>s'. update_progress s True now1 now2 = Inr s'"
proof (cases "- 1 \<le> mastery_level s")
  case True
  then show ?thesis by (simp add: update_progress_correct)
next
  case False
  then have "- 6 \<le> min 5 (mastery_level s + 1)" "min 5 (mastery_level s + 1) < 0"
    using assms by simp_all
  then obtain d where "py_getitem intervals (min 5 (mastery_level s + 1)) = Inr d"
    using getitem_from_back by blast
  then show ?thesis
    by (simp add: update_progress_def save_def Let_def)
qed

lemma update_progress_correct_raises:
  assumes "mastery_level s < - 7"
  shows "update_progress s True now1 now2 = Inl IndexError"
proof -
  have "min 5 (mastery_level s + 1) < - 6" using assms by simp
  then have "py_getitem intervals (min 5 (mastery_level s + 1)) = Inl IndexError"
    by (rule getitem_out_of_range)
  then show ?thesis
    by (simp add: update_progress_def Let_def)
qed

text \<open>
  Claim C1. For a record whose mastery level is between 0 and 5 the update returns a
  record. After a correct answer \<open>correct_count\<close> is one more, the level is
  \<open>min 5 (level + 1)\<close> and the interval is the entry of \<open>[1, 3, 7, 14, 30, 60]\<close> at the
  new level: level 0 gives level 1 and three days, level 5 stays 5 with sixty days.
  After a wrong answer \<open>incorrect_count\<close> is one more, the level is \<open>max 0 (level - 1)\<close>
  and the interval is one day. \<open>next_review\<close> is the clock reading taken for it plus the
  interval.
\<close>

theorem update_progress_algorithm:
  assumes "0 \<le> mastery_level s" and "mastery_level s \<le> 5"
  shows "\<exists>s'. update_progress s is_correct now1 now2 = Inr s'
           \<and> (is_correct \<longrightarrow>
                 correct_count s' = correct_count s + 1
               \<and> mastery_level s' = min 5 (mastery_level s + 1)
               \<and> next_review s' =
                   now2 + 86400000000 * ([1, 3, 7, 14, 30, 60] ! nat (mastery_level s'))
               \<and> (mastery_level s = 0 \<longrightarrow>
                     mastery_level s' = 1 \<and> next_review s' = now2 + 3 * 86400000000)
               \<and> (mastery_level s = 5 \<longrightarrow>
                     mastery_level s' = 5 \<and> next_review s' = now2 + 60 * 86400000000))
           \<and> (\<not> is_correct \<longrightarrow>
                 incorrect_count s' = incorrect_count s + 1
               \<and> mastery_level s' = max 0 (mastery_level s - 1)
               \<and> next_review s' = now2 + 86400000000)"
proof (cases is_correct)
  case True
  have "mastery_level s = 0 \<or> mastery_level s = 1 \<or> mastery_level s = 2
      \<or> mastery_level s = 3 \<or> mastery_level s = 4 \<or> mastery_level s = 5"
    using assms by (rule level_cases)
  then show ?thesis
    using True by (auto simp add: update_progress_correct intervals_def timedelta_def)
next
  case False
  then show ?thesis
    by (simp add: update_progress_incorrect timedelta_def)
qed

theorem update_progress_algorithm_witness:
  "(\<exists>s'. update_progress
            \<lparr>user_id = 1, word_id = 7, mastery_level = 0, correct_count = 0,
             incorrect_count = 0, last_reviewed = 0, next_review = 0\<rparr>
            True 1000 1002 = Inr s'
         \<and> correct_count s' = 1 \<and> mastery_level s' = 1
         \<and> next_review s' = 1002 + 3 * 86400000000)
   \<and> (\<exists>s'. update_progress
            \<lparr>user_id = 1, word_id = 7, mastery_level = 3, correct_count = 4,
             incorrect_count = 1, last_reviewed = 0, next_review = 0\<rparr>
            False 1000 1002 = Inr s'
         \<and> incorrect_count s' = 2 \<and> mastery_level s' = 2
         \<and> next_review s' = 1002 + 86400000000)"
proof -
  let ?a = "\<lparr>user_id = 1, word_id = 7, mastery_level = 0, correct_count = 0,
            incorrect_count = 0, last_reviewed = 0, next_review = 0\<rparr>"
  let ?b = "\<lparr>user_id = 1, word_id = 7, mastery_level = 3, correct_count = 4,
            incorrect_count = 1, last_reviewed = 0, next_review = 0\<rparr>"
  have "0 \<le> mastery_level ?a" "mastery_level ?a \<le> 5" by simp_all
  from update_progress_algorithm [OF this, of True 1000 1002]
  obtain a' where a': "update_progress ?a True 1000 1002 = Inr a'"
      "correct_count a' = 1" "mastery_level a' = 1"
      "next_review a' = 1002 + 3 * 86400000000"
    by auto
  have "0 \<le> mastery_level ?b" "mastery_level ?b \<le> 5" by simp_all
  from update_progress_algorithm [OF this, of False 1000 1002]
  obtain b' where b': "update_progress ?b False 1000 1002 = Inr b'"
      "incorrect_count b' = 2" "mastery_level b' = 2"
      "next_review b' = 1002 + 86400000000"
    by auto
  show ?thesis using a' b' by simp
qed

text \<open>
  Claim C3, as stated: for every record, whatever its mastery level, the level after the
  update is between 0 and 5. It fails: a record at level 7 that receives a wrong answer
  comes back at level 6, since the wrong-answer branch only bounds the level from below.
\<close>

theorem update_progress_unclamped_counterexample:
  "update_progress
     \<lparr>user_id = 1, word_id = 7, mastery_level = 7, correct_count = 8,
      incorrect_count = 3, last_reviewed = 0, next_review = 0\<rparr>
     False 1000 1002
   = Inr \<lparr>user_id = 1, word_id = 7, mastery_level = 6, correct_count = 8,
          incorrect_count = 4, last_reviewed = 1000, next_review = 1002 + 86400000000\<rparr>
   \<and> \<not> (6 :: int) \<le> 5"
  by (simp add: update_progress_incorrect timedelta_def)

text \<open>
  Claim C3, amended. Each branch bounds the level on one side only. A wrong answer
  always returns a record; its level is \<open>max 0 (level - 1)\<close>, never below 0, and at most 5
  exactly when the level before was at most 6. A correct answer returns a record when
  the level before was at least \<open>-7\<close> (the table lookup then succeeds, a negative index
  counting from the back) and raises \<open>IndexError\<close> otherwise; the level returned is
  \<open>min 5 (level + 1)\<close>, never above 5, and at least 0 exactly when the level before was
  at least \<open>-1\<close>.
\<close>

theorem update_progress_clamps_one_side:
  "(\<exists>s'. update_progress s False now1 now2 = Inr s'
         \<and> mastery_level s' = max 0 (mastery_level s - 1)
         \<and> 0 \<le> mastery_level s'
         \<and> (mastery_level s' \<le> 5) = (mastery_level s \<le> 6))
   \<and> (if - 7 \<le> mastery_level s
       then \<exists>s'. update_progress s True now1 now2 = Inr s'
              \<and> mastery_level s' = min 5 (mastery_level s + 1)
              \<and> mastery_level s' \<le> 5
              \<and> (0 \<le> mastery_level s') = (- 1 \<le> mastery_level s)
       else update_progress s True now1 now2 = Inl IndexError)"
proof -
  have wrong: "\<exists>s'. update_progress s False now1 now2 = Inr s'
         \<and> mastery_level s' = max 0 (mastery_level s - 1)
         \<and> 0 \<le> mastery_level s'
         \<and> (mastery_level s' \<le> 5) = (mastery_level s \<le> 6)"
    by (auto simp add: update_progress_incorrect)
  have right: "\<exists>s'. update_progress s True now1 now2 = Inr s'
              \<and> mastery_level s' = min 5 (mastery_level s + 1)
              \<and> mastery_level s' \<le> 5
              \<and> (0 \<le> mastery_level s') = (- 1 \<le> mastery_level s)"
    if lvl: "- 7 \<le> mastery_level s"
  proof -
    obtain s' where s': "update_progress s True now1 now2 = Inr s'"
      using update_progress_correct_returns [OF lvl] by blast
    then have "mastery_level s' = min 5 (mastery_level s + 1)"
      by (rule update_progress_correct_level)
    then show ?thesis using s' by auto
  qed
  have raises: "update_progress s True now1 now2 = Inl IndexError"
    if "\<not> - 7 \<le> mastery_level s"
    using that by (simp add: update_progress_correct_raises)
  show ?thesis using wrong right raises by simp
qed

theorem update_progress_clamps_one_side_witness:
  "(\<exists>s'. update_progress
            \<lparr>user_id = 1, word_id = 7, mastery_level = - 3, correct_count = 0,
             incorrect_count = 0, last_reviewed = 0, next_review = 0\<rparr>
            False 1000 1002 = Inr s' \<and> mastery_level s' = 0)
   \<and> (\<exists>s'. update_progress
            \<lparr>user_id = 1, word_id = 7, mastery_level = - 3, correct_count = 0,
             incorrect_count = 0, last_reviewed = 0, next_review = 0\<rparr>
            True 1000 1002 = Inr s' \<and> mastery_level s' = - 2)
   \<and> update_progress
            \<lparr>user_id = 1, word_id = 7, mastery_level = - 8, correct_count = 0,
             incorrect_count = 0, last_reviewed = 0, next_review = 0\<rparr>
            True 1000 1002 = Inl IndexError"
  using update_progress_clamps_one_side
      [of "\<lparr>user_id = 1, word_id = 7, mastery_level = - 3, correct_count = 0,
            incorrect_count = 0, last_reviewed = 0, next_review = 0\<rparr>" 1000 1002]
    update_progress_clamps_one_side
      [of "\<lparr>user_id = 1, word_id = 7, mastery_level = - 8, correct_count = 0,
            incorrect_count = 0, last_reviewed = 0, next_review = 0\<rparr>" 1000 1002]
  by auto

lemma update_progress_step:
  assumes "0 \<le> mastery_level s" and "mastery_level s \<le> 5"
  shows "\<exists>s'. update_progress s c now1 now2 = Inr s'
           \<and> 0 \<le> mastery_level s' \<and> mastery_level s' \<le> 5
           \<and> correct_count s' = correct_count s + (if c then 1 else 0)
           \<and> incorrect_count s' = incorrect_count s + (if c then 0 else 1)"
  using assms
  by (cases c) (simp_all add: update_progress_correct update_progress_incorrect)

lemma update_progress_counters:
  assumes "update_progress s c now1 now2 = Inr s'"
  shows "correct_count s' = correct_count s + (if c then 1 else 0)"
    and "incorrect_count s' = incorrect_count s + (if c then 0 else 1)"
  using assms
  by (auto simp add: update_progress_def save_def Let_def split: sum.splits if_splits)

lemma answer_all_append:
  "answer_all s (xs @ ys) =
     (case answer_all s xs of Inr s' \<Rightarrow> answer_all s' ys | Inl e \<Rightarrow> Inl e)"
proof (induction xs arbitrary: s)
  case Nil
  show ?case by simp
next
  case (Cons x xs)
  obtain c n1 n2 where x: "x = (c, n1, n2)" by (cases x) auto
  show ?case
    by (cases "update_progress s c n1 n2") (simp_all add: x Cons.IH)
qed

lemma answer_all_in_range:
  assumes "0 \<le> mastery_level s" and "mastery_level s \<le> 5"
  shows "\<exists>s'. answer_all s xs = Inr s'
           \<and> 0 \<le> mastery_level s' \<and> mastery_level s' \<le> 5
           \<and> correct_count s \<le> correct_count s'
           \<and> incorrect_count s \<le> incorrect_count s'"
  using assms
proof (induction xs arbitrary: s)
  case Nil
  then show ?case by simp
next
  case (Cons x xs)
  obtain c n1 n2 where x: "x = (c, n1, n2)" by (cases x) auto
  obtain s1 where s1: "update_progress s c n1 n2 = Inr s1"
      "0 \<le> mastery_level s1" "mastery_level s1 \<le> 5"
      "correct_count s1 = correct_count s + (if c then 1 else 0)"
      "incorrect_count s1 = incorrect_count s + (if c then 0 else 1)"
    using update_progress_step [OF Cons.prems] by blast
  obtain s2 where s2: "answer_all s1 xs = Inr s2"
      "0 \<le> mastery_level s2" "mastery_level s2 \<le> 5"
      "correct_count s1 \<le> correct_count s2"
      "incorrect_count s1 \<le> incorrect_count s2"
    using Cons.IH [OF s1(2,3)] by blast
  have "correct_count s \<le> correct_count s2" "incorrect_count s \<le> incorrect_count s2"
    using s1(4,5) s2(4,5) by (simp_all split: if_splits)
  then show ?case using s1(1) s2(1,2,3) by (simp add: x)
qed

text \<open>
  Claim C5. For a record whose mastery level is between 0 and 5, either answer, and clock
  readings of which the second is not before the first (in particular the single \<open>now\<close>
  of the spec), the record returned has \<open>next_review\<close> strictly after \<open>last_reviewed\<close>:
  the interval added to the second reading is at least one day.
\<close>

theorem update_progress_next_after_last:
  assumes "0 \<le> mastery_level s" and "mastery_level s \<le> 5" and "now1 \<le> now2"
  shows "\<exists>s'. update_progress s is_correct now1 now2 = Inr s'
           \<and> last_reviewed s' < next_review s'
           \<and> now2 + 86400000000 \<le> next_review s'"
proof (cases is_correct)
  case True
  have "mastery_level s = 0 \<or> mastery_level s = 1 \<or> mastery_level s = 2
      \<or> mastery_level s = 3 \<or> mastery_level s = 4 \<or> mastery_level s = 5"
    using assms(1,2) by (rule level_cases)
  then show ?thesis
    using True assms(3)
    by (auto simp add: update_progress_correct intervals_def timedelta_def)
next
  case False
  then show ?thesis
    using assms(3) by (simp add: update_progress_incorrect timedelta_def)
qed

theorem update_progress_next_after_last_witness:
  "\<exists>s'. update_progress
          \<lparr>user_id = 1, word_id = 7, mastery_level = 0, correct_count = 2,
           incorrect_count = 3, last_reviewed = 500, next_review = 900\<rparr>
          False 1000 1000 = Inr s'
        \<and> last_reviewed s' < next_review s'
        \<and> 1000 + 86400000000 \<le> next_review s'"
  using update_progress_next_after_last
    [of "\<lparr>user_id = 1, word_id = 7, mastery_level = 0, correct_count = 2,
          incorrect_count = 3, last_reviewed = 500, next_review = 900\<rparr>" 1000 1000 False]
  by simp

text \<open>
  Claim C6. For a record whose mastery level is between 0 and 5, a correct answer returns
  a record whose level is not below the old one, and a wrong answer returns a record
  whose level is not above the old one.
\<close>

theorem update_progress_monotone:
  assumes "0 \<le> mastery_level s" and "mastery_level s \<le> 5"
  shows "\<exists>up down. update_progress s True now1 now2 = Inr up
           \<and> mastery_level s \<le> mastery_level up
           \<and> update_progress s False now1 now2 = Inr down
           \<and> mastery_level down \<le> mastery_level s"
  using assms by (simp add: update_progress_correct update_progress_incorrect)

theorem update_progress_monotone_witness:
  "\<exists>up down. update_progress
          \<lparr>user_id = 1, word_id = 7, mastery_level = 2, correct_count = 2,
           incorrect_count = 3, last_reviewed = 500, next_review = 900\<rparr>
          True 1000 1000 = Inr up
        \<and> 2 \<le> mastery_level up
        \<and> update_progress
          \<lparr>user_id = 1, word_id = 7, mastery_level = 2, correct_count = 2,
           incorrect_count = 3, last_reviewed = 500, next_review = 900\<rparr>
          False 1000 1000 = Inr down
        \<and> mastery_level down \<le> 2"
  using update_progress_monotone
    [of "\<lparr>user_id = 1, word_id = 7, mastery_level = 2, correct_count = 2,
          incorrect_count = 3, last_reviewed = 500, next_review = 900\<rparr>" 1000 1000]
  by simp

text \<open>
  Claim C7. The update with a correct answer is not idempotent. For a record whose
  mastery level is between 0 and 5, the update returns a record, a second update of that
  record at the same clock readings returns a record too, and the second differs from
  the first: \<open>correct_count\<close> is one more again, and the level has moved one step further
  or stays at the cap 5.
\<close>

theorem update_progress_not_idempotent:
  assumes "0 \<le> mastery_level s" and "mastery_level s \<le> 5"
  shows "\<exists>once twice. update_progress s True now1 now2 = Inr once
           \<and> update_progress once True now1 now2 = Inr twice
           \<and> twice \<noteq> once
           \<and> correct_count once = correct_count s + 1
           \<and> correct_count twice = correct_count s + 2
           \<and> mastery_level once = min 5 (mastery_level s + 1)
           \<and> mastery_level twice = min 5 (mastery_level s + 2)"
proof -
  obtain once where once: "update_progress s True now1 now2 = Inr once"
      "0 \<le> mastery_level once" "mastery_level once \<le> 5"
      "correct_count once = correct_count s + 1"
    using update_progress_step [OF assms, of True now1 now2] by auto
  obtain twice where twice: "update_progress once True now1 now2 = Inr twice"
      "correct_count twice = correct_count once + 1"
    using update_progress_step [OF once(2,3), of True now1 now2] by auto
  have l1: "mastery_level once = min 5 (mastery_level s + 1)"
    using once(1) by (rule update_progress_correct_level)
  have "mastery_level twice = min 5 (mastery_level once + 1)"
    using twice(1) by (rule update_progress_correct_level)
  then have l2: "mastery_level twice = min 5 (mastery_level s + 2)"
    using l1 by simp
  have "correct_count twice \<noteq> correct_count once"
    using twice(2) by simp
  then have "twice \<noteq> once" by auto
  then show ?thesis
    using once(1,4) twice l1 l2 by simp
qed

theorem update_progress_not_idempotent_witness:
  "\<exists>once twice. update_progress
          \<lparr>user_id = 1, word_id = 7, mastery_level = 5, correct_count = 9,
           incorrect_count = 3, last_reviewed = 500, next_review = 900\<rparr>
          True 1000 1000 = Inr once
        \<and> update_progress once True 1000 1000 = Inr twice
        \<and> twice \<noteq> once
        \<and> mastery_level once = 5 \<and> mastery_level twice = 5
        \<and> correct_count once = 10 \<and> correct_count twice = 11"
  using update_progress_not_idempotent
    [of "\<lparr>user_id = 1, word_id = 7, mastery_level = 5, correct_count = 9,
          incorrect_count = 3, last_reviewed = 500, next_review = 900\<rparr>" 1000 1000]
  by auto

text \<open>
  Claim C10. For a record whose mastery level is between 0 and 5, a correct answer
  returns a record whose \<open>next_review\<close> is at least three days after the clock reading
  taken for it: the level after a correct answer is at least 1, so the first entry of the
  table (one day) is never the one looked up. Hence, when an update of such a record
  returns a \<open>next_review\<close> exactly one day after that reading, the answer was wrong.
\<close>

theorem update_progress_correct_three_days:
  assumes "0 \<le> mastery_level s" and "mastery_level s \<le> 5"
  shows "(\<exists>s'. update_progress s True now1 now2 = Inr s'
            \<and> 1 \<le> mastery_level s'
            \<and> now2 + 3 * 86400000000 \<le> next_review s')
       \<and> (\<forall>c s'. update_progress s c now1 now2 = Inr s'
              \<and> next_review s' = now2 + 86400000000 \<longrightarrow> \<not> c)"
proof -
  have lv: "mastery_level s = 0 \<or> mastery_level s = 1 \<or> mastery_level s = 2
      \<or> mastery_level s = 3 \<or> mastery_level s = 4 \<or> mastery_level s = 5"
    using assms by (rule level_cases)
  then have first: "\<exists>s'. update_progress s True now1 now2 = Inr s'
            \<and> 1 \<le> mastery_level s'
            \<and> now2 + 3 * 86400000000 \<le> next_review s'"
    by (auto simp add: update_progress_correct intervals_def timedelta_def)
  have "\<not> c" if "update_progress s c now1 now2 = Inr s'"
      and "next_review s' = now2 + 86400000000" for c s'
  proof
    assume c
    then have "update_progress s True now1 now2 = Inr s'" using that(1) by simp
    then have "now2 + 3 * 86400000000 \<le> next_review s'" using first by auto
    then show False using that(2) by simp
  qed
  then show ?thesis using first by blast
qed

theorem update_progress_correct_three_days_witness:
  "(\<exists>s'. update_progress
          \<lparr>user_id = 1, word_id = 7, mastery_level = 0, correct_count = 0,
           incorrect_count = 0, last_reviewed = 500, next_review = 900\<rparr>
          True 1000 1000 = Inr s'
        \<and> 1 \<le> mastery_level s'
        \<and> 1000 + 3 * 86400000000 \<le> next_review s')
   \<and> update_progress
          \<lparr>user_id = 1, word_id = 7, mastery_level = 0, correct_count = 0,
           incorrect_count = 0, last_reviewed = 500, next_review = 900\<rparr>
          False 1000 1000
       = Inr \<lparr>user_id = 1, word_id = 7, mastery_level = 0, correct_count = 0,
           incorrect_count = 1, last_reviewed = 1000, next_review = 1000 + 86400000000\<rparr>"
proof -
  let ?s = "\<lparr>user_id = 1, word_id = 7, mastery_level = 0, correct_count = 0,
           incorrect_count = 0, last_reviewed = 500, next_review = 900\<rparr>"
  have wrong: "update_progress ?s False 1000 1000
       = Inr \<lparr>user_id = 1, word_id = 7, mastery_level = 0, correct_count = 0,
           incorrect_count = 1, last_reviewed = 1000, next_review = 1000 + 86400000000\<rparr>"
    by (simp add: update_progress_incorrect timedelta_def)
  have "0 \<le> mastery_level ?s" "mastery_level ?s \<le> 5" by simp_all
  from update_progress_correct_three_days [OF this, of 1000 1000] wrong
  show ?thesis by blast
qed

text \<open>
  Claim C9. Every update that returns has raised exactly one counter by exactly 1 and
  left the other as it was: \<open>correct_count\<close> for a correct answer, \<open>incorrect_count\<close> for
  a wrong one. Consequently, for a row created fresh and any sequence of answers, every
  update of the sequence returns, and at every point of the sequence both counters are
  at least 0 and at most what they are at any later point.
\<close>

theorem update_progress_counters_monotone:
  "(\<forall>s'. update_progress s c now1 now2 = Inr s' \<longrightarrow>
       (if c then correct_count s' = correct_count s + 1
                \<and> incorrect_count s' = incorrect_count s
        else incorrect_count s' = incorrect_count s + 1
                \<and> correct_count s' = correct_count s))
   \<and> (\<exists>mid fin. answer_all (fresh_progress u w t1 t2) xs = Inr mid
          \<and> answer_all (fresh_progress u w t1 t2) (xs @ ys) = Inr fin
          \<and> 0 \<le> correct_count mid \<and> 0 \<le> incorrect_count mid
          \<and> correct_count mid \<le> correct_count fin
          \<and> incorrect_count mid \<le> incorrect_count fin)"
proof -
  have one: "\<forall>s'. update_progress s c now1 now2 = Inr s' \<longrightarrow>
       (if c then correct_count s' = correct_count s + 1
                \<and> incorrect_count s' = incorrect_count s
        else incorrect_count s' = incorrect_count s + 1
                \<and> correct_count s' = correct_count s)"
    using update_progress_counters [of s c now1 now2] by auto
  let ?f = "fresh_progress u w t1 t2"
  have f: "0 \<le> mastery_level ?f" "mastery_level ?f \<le> 5"
      "correct_count ?f = 0" "incorrect_count ?f = 0"
    by (simp_all add: fresh_progress_def)
  obtain mid where mid: "answer_all ?f xs = Inr mid"
      "0 \<le> mastery_level mid" "mastery_level mid \<le> 5"
      "correct_count ?f \<le> correct_count mid"
      "incorrect_count ?f \<le> incorrect_count mid"
    using answer_all_in_range [OF f(1,2), of xs] by blast
  obtain fin where fin: "answer_all mid ys = Inr fin"
      "correct_count mid \<le> correct_count fin"
      "incorrect_count mid \<le> incorrect_count fin"
    using answer_all_in_range [OF mid(2,3), of ys] by blast
  have "answer_all ?f (xs @ ys) = Inr fin"
    using mid(1) fin(1) by (simp add: answer_all_append)
  then have "\<exists>mid fin. answer_all ?f xs = Inr mid
          \<and> answer_all ?f (xs @ ys) = Inr fin
          \<and> 0 \<le> correct_count mid \<and> 0 \<le> incorrect_count mid
          \<and> correct_count mid \<le> correct_count fin
          \<and> incorrect_count mid \<le> incorrect_count fin"
    using mid(1,4,5) fin(2,3) f(3,4) by auto
  then show ?thesis using one by blast
qed

theorem update_progress_counters_monotone_witness:
  "(\<exists>s'. update_progress (fresh_progress 1 7 990 991) True 1000 1001 = Inr s'
        \<and> correct_count s' = correct_count (fresh_progress 1 7 990 991) + 1
        \<and> incorrect_count s' = incorrect_count (fresh_progress 1 7 990 991))
   \<and> (\<exists>mid fin.
         answer_all (fresh_progress 1 7 990 991)
           [(True, 1000, 1001), (False, 2000, 2001)] = Inr mid
       \<and> answer_all (fresh_progress 1 7 990 991)
           ([(True, 1000, 1001), (False, 2000, 2001)] @ [(True, 3000, 3001)]) = Inr fin
       \<and> 0 \<le> correct_count mid \<and> 0 \<le> incorrect_count mid
       \<and> correct_count mid \<le> correct_count fin
       \<and> incorrect_count mid \<le> incorrect_count fin)"
proof -
  have "- 1 \<le> mastery_level (fresh_progress 1 7 990 991)"
    by (simp add: fresh_progress_def)
  then have "\<exists>s'. update_progress (fresh_progress 1 7 990 991) True 1000 1001 = Inr s'"
    by (simp add: update_progress_correct)
  then show ?thesis
    using update_progress_counters_monotone
      [of "fresh_progress 1 7 990 991" True 1000 1001 1 7 990 991
          "[(True, 1000, 1001), (False, 2000, 2001)]" "[(True, 3000, 3001)]"]
    by auto
qed

section \<open>Properties of the success rate\<close>

lemma success_rate_no_answers:
  assumes "correct_count s + incorrect_count s = 0"
  shows "success_rate s = Inr 0"
  using assms by (simp add: success_rate_def)

text \<open>
  Claim C4: the success rate is \<open>floor(100 * correct_count / (correct_count +
  incorrect_count))\<close>, and 0 when both counters are 0. The code computes the quotient and
  the product in binary floating point, and the claim fails on it: with 29 correct and 21
  wrong answers the quotient \<open>29 / 50\<close> is the binary64 number just below 0.58, its
  product with 100 rounds to the number just below 58, and the truncation returns 57,
  where the floor of \<open>2900 / 50\<close> is 58. The two examples of the claim hold: 3 correct
  and 1 wrong give 75, and no answers give 0.
\<close>

theorem success_rate_float_rounding:
  "success_rate \<lparr>user_id = 1, word_id = 7, mastery_level = 3, correct_count = 29,
      incorrect_count = 21, last_reviewed = 0, next_review = 0\<rparr> = Inr 57
   \<and> (100 * 29) div (29 + 21) = (58 :: int)
   \<and> success_rate \<lparr>user_id = 1, word_id = 7, mastery_level = 3, correct_count = 3,
      incorrect_count = 1, last_reviewed = 0, next_review = 0\<rparr> = Inr 75
   \<and> success_rate \<lparr>user_id = 1, word_id = 7, mastery_level = 0, correct_count = 0,
      incorrect_count = 0, last_reviewed = 0, next_review = 0\<rparr> = Inr 0"
  by code_simp

section \<open>Properties of the practice view\<close>

lemma filter_unlearned:
  "filter (\<lambda>w. id_pk w \<notin> set (learned_word_ids db u)) ws =
   filter (\<lambda>w. \<not> (\<exists>p \<in> set (progress_rows db). user_id p = u \<and> word_id p = id_pk w)) ws"
proof -
  have eq: "(id_pk w \<in> set (learned_word_ids db u)) =
        (\<exists>p \<in> set (progress_rows db). user_id p = u \<and> word_id p = id_pk w)" for w
    unfolding learned_word_ids_def by force
  show ?thesis by (simp only: eq)
qed

lemma take_prefix_of_sorted:
  "\<exists>rest. mset (take n (sort_key f xs) @ rest) = mset xs
         \<and> sorted (map f (take n (sort_key f xs) @ rest))"
proof -
  have "take n (sort_key f xs) @ drop n (sort_key f xs) = sort_key f xs" by simp
  then show ?thesis
    by (metis mset_sort sorted_sort_key)
qed

text \<open>
  Claim C8. For every database, user and clock reading, the session list of the practice
  view is \<open>A\<close> followed by \<open>B\<close>. \<open>A\<close> is the first ten, or all if there are fewer, of the
  user's progress rows with \<open>next_review \<le> now\<close> in ascending order of \<open>next_review\<close>.
  \<open>B\<close> is made of words the user has no progress row for and fills what is left of the
  ten places (none when \<open>A\<close> has ten rows). The list has at most ten entries, and it is
  empty when the tables are, in which case the view answers with the page without words.
\<close>

theorem practice_words_selection:
  "\<exists>A B. practice_words db u now = map Due A @ map New B
      \<and> (\<exists>rest. mset (A @ rest) =
                   mset (filter (\<lambda>p. user_id p = u \<and> next_review p \<le> now) (progress_rows db))
               \<and> sorted (map next_review (A @ rest)))
      \<and> length A =
          min 10 (length (filter (\<lambda>p. user_id p = u \<and> next_review p \<le> now) (progress_rows db)))
      \<and> (\<exists>rest. mset (B @ rest) =
                   mset (filter (\<lambda>w. \<not> (\<exists>p \<in> set (progress_rows db).
                                          user_id p = u \<and> word_id p = id_pk w)) (word_rows db)))
      \<and> length B =
          min (10 - length A)
              (length (filter (\<lambda>w. \<not> (\<exists>p \<in> set (progress_rows db).
                                          user_id p = u \<and> word_id p = id_pk w)) (word_rows db)))
      \<and> (10 \<le> length A \<longrightarrow> B = [])
      \<and> length (practice_words db u now) \<le> 10
      \<and> practice_words \<lparr>progress_rows = [], word_rows = []\<rparr> u now = []
      \<and> practice \<lparr>progress_rows = [], word_rows = []\<rparr> u now = NoWords"
proof -
  let ?F = "filter (\<lambda>p. user_id p = u \<and> next_review p \<le> now) (progress_rows db)"
  let ?G = "filter (\<lambda>w. \<not> (\<exists>p \<in> set (progress_rows db).
                                user_id p = u \<and> word_id p = id_pk w)) (word_rows db)"
  let ?A = "due_words db u now"
  let ?B = "new_words db u (length ?A)"
  have A: "?A = take 10 (sort_key next_review ?F)"
    by (simp add: due_words_def)
  have B: "?B = take (10 - length ?A) (sort_key (\<lambda>w. (difficulty w, word w)) ?G)"
    by (simp add: new_words_def filter_unlearned)
  have 1: "practice_words db u now = map Due ?A @ map New ?B"
    by (simp add: practice_words_def Let_def)
  have 2: "\<exists>rest. mset (?A @ rest) = mset ?F \<and> sorted (map next_review (?A @ rest))"
    unfolding A by (rule take_prefix_of_sorted)
  have 3: "length ?A = min 10 (length ?F)"
    unfolding A by (simp add: min.commute)
  have "\<exists>rest. mset (?B @ rest) = mset ?G
         \<and> sorted (map (\<lambda>w. (difficulty w, word w)) (?B @ rest))"
    unfolding B by (rule take_prefix_of_sorted)
  then have 4: "\<exists>rest. mset (?B @ rest) = mset ?G" by blast
  have 5: "length ?B = min (10 - length ?A) (length ?G)"
    by (subst B) (simp add: min.commute)
  have 6: "10 \<le> length ?A \<longrightarrow> ?B = []"
    by (subst B) simp
  have 7: "length (practice_words db u now) \<le> 10"
    using 3 5 by (simp add: 1)
  have 8: "practice_words \<lparr>progress_rows = [], word_rows = []\<rparr> u now = []"
    by (simp add: practice_words_def due_words_def new_words_def)
  then have 9: "practice \<lparr>progress_rows = [], word_rows = []\<rparr> u now = NoWords"
    by (simp add: practice_def)
  show ?thesis
    using 1 2 3 4 5 6 7 8 9 by blast
qed

theorem practice_words_selection_witness:
  "practice_words
     \<lparr>progress_rows =
        [\<lparr>user_id = 1, word_id = 1, mastery_level = 2, correct_count = 3,
          incorrect_count = 1, last_reviewed = 10, next_review = 50\<rparr>,
         \<lparr>user_id = 1, word_id = 2, mastery_level = 1, correct_count = 1,
          incorrect_count = 0, last_reviewed = 5, next_review = 20\<rparr>,
         \<lparr>user_id = 1, word_id = 3, mastery_level = 4, correct_count = 6,
          incorrect_count = 2, last_reviewed = 90, next_review = 500\<rparr>,
         \<lparr>user_id = 2, word_id = 4, mastery_level = 0, correct_count = 0,
          incorrect_count = 1, last_reviewed = 8, next_review = 10\<rparr>],
      word_rows =
        [\<lparr>id_pk = 1, language_id = 1, word = ''uno'', translation = ''one'',
          pronunciation = [], example_sentence = [], difficulty = ''beginner'',
          created_at = 0\<rparr>,
         \<lparr>id_pk = 2, language_id = 1, word = ''dos'', translation = ''two'',
          pronunciation = [], example_sentence = [], difficulty = ''beginner'',
          created_at = 0\<rparr>,
         \<lparr>id_pk = 3, language_id = 1, word = ''tres'', translation = ''three'',
          pronunciation = [], example_sentence = [], difficulty = ''beginner'',
          created_at = 0\<rparr>,
         \<lparr>id_pk = 4, language_id = 1, word = ''hola'', translation = ''hello'',
          pronunciation = [], example_sentence = [], difficulty = ''beginner'',
          created_at = 0\<rparr>,
         \<lparr>id_pk = 5, language_id = 1, word = ''si'', translation = ''yes'',
          pronunciation = [], example_sentence = [], difficulty = ''advanced'',
          created_at = 0\<rparr>]\<rparr>
     1 100
   = [Due \<lparr>user_id = 1, word_id = 2, mastery_level = 1, correct_count = 1,
          incorrect_count = 0, last_reviewed = 5, next_review = 20\<rparr>,
      Due \<lparr>user_id = 1, word_id = 1, mastery_level = 2, correct_count = 3,
          incorrect_count = 1, last_reviewed = 10, next_review = 50\<rparr>,
      New \<lparr>id_pk = 5, language_id = 1, word = ''si'', translation = ''yes'',
          pronunciation = [], example_sentence = [], difficulty = ''advanced'',
          created_at = 0\<rparr>,
      New \<lparr>id_pk = 4, language_id = 1, word = ''hola'', translation = ''hello'',
          pronunciation = [], example_sentence = [], difficulty = ''beginner'',
          created_at = 0\<rparr>]
   \<and> (\<exists>A B. practice_words
         \<lparr>progress_rows =
            map (\<lambda>i. \<lparr>user_id = 1, word_id = i, mastery_level = 1, correct_count = 1,
                       incorrect_count = 0, last_reviewed = 0, next_review = int i\<rparr>)
              [1..<12],
          word_rows =
            [\<lparr>id_pk = 20, language_id = 1, word = ''si'', translation = ''yes'',
              pronunciation = [], example_sentence = [], difficulty = ''advanced'',
              created_at = 0\<rparr>]\<rparr>
         1 100 = map Due A @ map New B
       \<and> length A = 10 \<and> B = [])"
proof -
  let ?db = "\<lparr>progress_rows =
            map (\<lambda>i. \<lparr>user_id = 1, word_id = i, mastery_level = 1, correct_count = 1,
                       incorrect_count = 0, last_reviewed = 0, next_review = int i\<rparr>)
              [1..<12],
          word_rows =
            [\<lparr>id_pk = 20, language_id = 1, word = ''si'', translation = ''yes'',
              pronunciation = [], example_sentence = [], difficulty = ''advanced'',
              created_at = 0\<rparr>]\<rparr>"
  have n: "length (filter (\<lambda>p. user_id p = 1 \<and> next_review p \<le> 100) (progress_rows ?db)) = 11"
    by code_simp
  have second: "\<exists>A B. practice_words ?db 1 100 = map Due A @ map New B
       \<and> length A = 10 \<and> B = []"
    using practice_words_selection [of ?db 1 100] unfolding n by auto
  have first: "practice_words
     \<lparr>progress_rows =
        [\<lparr>user_id = 1, word_id = 1, mastery_level = 2, correct_count = 3,
          incorrect_count = 1, last_reviewed = 10, next_review = 50\<rparr>,
         \<lparr>user_id = 1, word_id = 2, mastery_level = 1, correct_count = 1,
          incorrect_count = 0, last_reviewed = 5, next_review = 20\<rparr>,
         \<lparr>user_id = 1, word_id = 3, mastery_level = 4, correct_count = 6,
          incorrect_count = 2, last_reviewed = 90, next_review = 500\<rparr>,
         \<lparr>user_id = 2, word_id = 4, mastery_level = 0, correct_count = 0,
          incorrect_count = 1, last_reviewed = 8, next_review = 10\<rparr>],
      word_rows =
        [\<lparr>id_pk = 1, language_id = 1, word = ''uno'', translation = ''one'',
          pronunciation = [], example_sentence = [], difficulty = ''beginner'',
          created_at = 0\<rparr>,
         \<lparr>id_pk = 2, language_id = 1, word = ''dos'', translation = ''two'',
          pronunciation = [], example_sentence = [], difficulty = ''beginner'',
          created_at = 0\<rparr>,
         \<lparr>id_pk = 3, language_id = 1, word = ''tres'', translation = ''three'',
          pronunciation = [], example_sentence = [], difficulty = ''beginner'',
          created_at = 0\<rparr>,
         \<lparr>id_pk = 4, language_id = 1, word = ''hola'', translation = ''hello'',
          pronunciation = [], example_sentence = [], difficulty = ''beginner'',
          created_at = 0\<rparr>,
         \<lparr>id_pk = 5, language_id = 1, word = ''si'', translation = ''yes'',
          pronunciation = [], example_sentence = [], difficulty = ''advanced'',
          created_at = 0\<rparr>]\<rparr>
     1 100
   = [Due \<lparr>user_id = 1, word_id = 2, mastery_level = 1, correct_count = 1,
          incorrect_count = 0, last_reviewed = 5, next_review = 20\<rparr>,
      Due \<lparr>user_id = 1, word_id = 1, mastery_level = 2, correct_count = 3,
          incorrect_count = 1, last_reviewed = 10, next_review = 50\<rparr>,
      New \<lparr>id_pk = 5, language_id = 1, word = ''si'', translation = ''yes'',
          pronunciation = [], example_sentence = [], difficulty = ''advanced'',
          created_at = 0\<rparr>,
      New \<lparr>id_pk = 4, language_id = 1, word = ''hola'', translation = ''hello'',
          pronunciation = [], example_sentence = [], difficulty = ''beginner'',
          created_at = 0\<rparr>]"
    by code_simp
  show ?thesis using first second by (rule conjI)
qed

end
